theory Spec2Isabelle
  imports Complex_Main "HOL-Library.AList" "HOL-Library.Sublist"
begin

section \<open>Python values\<close>

text \<open>
  The storage module of uAgents (\<^verbatim>\<open>uagents/storage/__init__.py\<close>) keeps dictionaries of
  JSON data in memory and in files. A value is what \<^verbatim>\<open>json.load\<close> can return: \<^verbatim>\<open>None\<close>,
  a bool, an int, a finite float (the rational it denotes), a str, a list, or a dict with
  str keys. A dict is an association list in insertion order, as Python keeps it.
  Equality of the embedding is finer than Python's \<^verbatim>\<open>==\<close> (it tells \<^verbatim>\<open>1\<close> from \<^verbatim>\<open>1.0\<close> and
  from \<^verbatim>\<open>True\<close>, and two dicts that differ in order only), so an equation proved here holds
  for \<^verbatim>\<open>==\<close> too. The values \<^verbatim>\<open>NaN\<close> and \<^verbatim>\<open>Infinity\<close>, which are not JSON, and Python
  objects that \<^verbatim>\<open>json.dump\<close> rejects or changes (tuples, dicts with other keys) are not
  part of the embedding.
\<close>

datatype json =
    JNull
  | JBool bool
  | JInt int
  | JFloat rat
  | JStr string
  | JArr "json list"
  | JObj "(string \<times> json) list"

datatype error =
    JSONDecodeError
  | KeyError string
  | TypeError
  | AttributeError
  | IsADirectoryError
  | FileNotFoundError

text \<open>Truth value testing, \<^verbatim>\<open>if v:\<close>.\<close>

fun py_bool :: "json \<Rightarrow> bool" where
  "py_bool JNull = False"
| "py_bool (JBool b) = b"
| "py_bool (JInt n) = (n \<noteq> 0)"
| "py_bool (JFloat q) = (q \<noteq> 0)"
| "py_bool (JStr s) = (s \<noteq> [])"
| "py_bool (JArr xs) = (xs \<noteq> [])"
| "py_bool (JObj m) = (m \<noteq> [])"

text \<open>
  \<^verbatim>\<open>k in v\<close> for a str \<^verbatim>\<open>k\<close>: key membership in a dict, element membership in a list,
  substring test in a str, \<^verbatim>\<open>TypeError\<close> for a value that is not a container.
\<close>

fun py_contains :: "string \<Rightarrow> json \<Rightarrow> error + bool" where
  "py_contains k (JObj m) = Inr (map_of m k \<noteq> None)"
| "py_contains k (JArr xs) = Inr (JStr k \<in> set xs)"
| "py_contains k (JStr s) = Inr (sublist k s)"
| "py_contains k JNull = Inl TypeError"
| "py_contains k (JBool b) = Inl TypeError"
| "py_contains k (JInt n) = Inl TypeError"
| "py_contains k (JFloat q) = Inl TypeError"

text \<open>\<^verbatim>\<open>v.get(k)\<close>: only a dict has the method; a missing key gives \<^verbatim>\<open>None\<close>.\<close>

fun py_get :: "json \<Rightarrow> string \<Rightarrow> error + json" where
  "py_get (JObj m) k = Inr (case map_of m k of None \<Rightarrow> JNull | Some v \<Rightarrow> v)"
| "py_get JNull k = Inl AttributeError"
| "py_get (JBool b) k = Inl AttributeError"
| "py_get (JInt n) k = Inl AttributeError"
| "py_get (JFloat q) k = Inl AttributeError"
| "py_get (JStr s) k = Inl AttributeError"
| "py_get (JArr xs) k = Inl AttributeError"

text \<open>\<^verbatim>\<open>v[k]\<close> for a str \<^verbatim>\<open>k\<close>: \<^verbatim>\<open>KeyError\<close> on a dict without the key, \<^verbatim>\<open>TypeError\<close> elsewhere.\<close>

fun py_getitem :: "json \<Rightarrow> string \<Rightarrow> error + json" where
  "py_getitem (JObj m) k = (case map_of m k of None \<Rightarrow> Inl (KeyError k) | Some v \<Rightarrow> Inr v)"
| "py_getitem JNull k = Inl TypeError"
| "py_getitem (JBool b) k = Inl TypeError"
| "py_getitem (JInt n) k = Inl TypeError"
| "py_getitem (JFloat q) k = Inl TypeError"
| "py_getitem (JStr s) k = Inl TypeError"
| "py_getitem (JArr xs) k = Inl TypeError"

text \<open>
  \<^verbatim>\<open>v[k] = x\<close> for a str \<^verbatim>\<open>k\<close>: a dict overwrites the entry where it stands or appends a
  new one; every other value raises \<^verbatim>\<open>TypeError\<close>.
\<close>

fun py_setitem :: "json \<Rightarrow> string \<Rightarrow> json \<Rightarrow> error + json" where
  "py_setitem (JObj m) k x = Inr (JObj (AList.update k x m))"
| "py_setitem JNull k x = Inl TypeError"
| "py_setitem (JBool b) k x = Inl TypeError"
| "py_setitem (JInt n) k x = Inl TypeError"
| "py_setitem (JFloat q) k x = Inl TypeError"
| "py_setitem (JStr s) k x = Inl TypeError"
| "py_setitem (JArr xs) k x = Inl TypeError"

text \<open>\<^verbatim>\<open>del v[k]\<close> for a str \<^verbatim>\<open>k\<close>.\<close>

fun py_delitem :: "json \<Rightarrow> string \<Rightarrow> error + json" where
  "py_delitem (JObj m) k =
     (if map_of m k \<noteq> None then Inr (JObj (AList.delete k m)) else Inl (KeyError k))"
| "py_delitem JNull k = Inl TypeError"
| "py_delitem (JBool b) k = Inl TypeError"
| "py_delitem (JInt n) k = Inl TypeError"
| "py_delitem (JFloat q) k = Inl TypeError"
| "py_delitem (JStr s) k = Inl TypeError"
| "py_delitem (JArr xs) k = Inl TypeError"

text \<open>\<^verbatim>\<open>v.clear()\<close>: dicts and lists have the method.\<close>

fun py_clear :: "json \<Rightarrow> error + json" where
  "py_clear (JObj m) = Inr (JObj [])"
| "py_clear (JArr xs) = Inr (JArr [])"
| "py_clear JNull = Inl AttributeError"
| "py_clear (JBool b) = Inl AttributeError"
| "py_clear (JInt n) = Inl AttributeError"
| "py_clear (JFloat q) = Inl AttributeError"
| "py_clear (JStr s) = Inl AttributeError"

section \<open>The process environment\<close>

text \<open>
  A file holds text. The module reads it with \<^verbatim>\<open>json.load\<close> only and writes it with
  \<^verbatim>\<open>json.dump\<close> only, so a file's text is represented by what \<^verbatim>\<open>json.load\<close> makes of it:
  the value it parses to, or \<^verbatim>\<open>Malformed\<close> when it raises \<^verbatim>\<open>JSONDecodeError\<close>. That
  \<^verbatim>\<open>json.dump\<close> writes a text which \<^verbatim>\<open>json.load\<close> reads back as the dumped value is the
  contract of the \<^verbatim>\<open>json\<close> module on the values above, and is built into this
  representation. A path names a regular file, a directory, or nothing.

  The environment also holds the working directory of the process, the log of the paths
  opened for writing (most recent first), and the two key generators, which are not part
  of this module: the outputs each will produce, in order, and how many were drawn.
\<close>

datatype contents = Parses json | Malformed

datatype node = File contents | Dir

record world =
  files :: "string \<rightharpoonup> node"
  getcwd :: string
  written :: "string list"
  identity_src :: "nat \<Rightarrow> string"
  identity_calls :: nat
  wallet_src :: "nat \<Rightarrow> string"
  wallet_calls :: nat

text \<open>\<^verbatim>\<open>os.path.join(a, b)\<close> on POSIX.\<close>

definition os_path_join :: "string \<Rightarrow> string \<Rightarrow> string" where
  "os_path_join a b =
     (if b \<noteq> [] \<and> hd b = CHR ''/'' then b
      else if a = [] \<or> last a = CHR ''/'' then a @ b
      else a @ ''/'' @ b)"

definition os_path_isfile :: "string \<Rightarrow> world \<Rightarrow> bool" where
  "os_path_isfile p w = (case files w p of Some (File c) \<Rightarrow> True | _ \<Rightarrow> False)"

definition os_path_exists :: "string \<Rightarrow> world \<Rightarrow> bool" where
  "os_path_exists p w = (files w p \<noteq> None)"

text \<open>\<^verbatim>\<open>with open(p, encoding="utf-8") as f: json.load(f)\<close>.\<close>

definition json_load :: "string \<Rightarrow> world \<Rightarrow> error + json" where
  "json_load p w =
     (case files w p of
        None \<Rightarrow> Inl FileNotFoundError
      | Some Dir \<Rightarrow> Inl IsADirectoryError
      | Some (File Malformed) \<Rightarrow> Inl JSONDecodeError
      | Some (File (Parses v)) \<Rightarrow> Inr v)"

text \<open>
  \<^verbatim>\<open>with open(p, "w", encoding="utf-8") as f: json.dump(v, f, ...)\<close>: the file is created
  or truncated and rewritten whole. Opening a directory for writing fails; failures of the
  medium (permissions, a full disk) are not modelled.
\<close>

definition json_dump :: "json \<Rightarrow> string \<Rightarrow> world \<Rightarrow> (error + unit) \<times> world" where
  "json_dump v p w =
     (case files w p of
        Some Dir \<Rightarrow> (Inl IsADirectoryError, w)
      | _ \<Rightarrow> (Inr (), w\<lparr>files := (files w)(p \<mapsto> File (Parses v)), written := p # written w\<rparr>))"

text \<open>
  Modelled from the spec: the identity-key generation primitive
  (\<^verbatim>\<open>Identity.generate().private_key\<close>, of \<^verbatim>\<open>uagents_core.identity\<close>) is not in this module;
  it "produces a fresh secret key string for message-signing identity". Each call draws
  the next output of the environment's generator.
\<close>

definition Identity_generate :: "world \<Rightarrow> string \<times> world" where
  "Identity_generate w =
     (identity_src w (identity_calls w), w\<lparr>identity_calls := Suc (identity_calls w)\<rparr>)"

text \<open>
  Modelled from the spec: the wallet-key generation primitive
  (\<^verbatim>\<open>PrivateKey().private_key\<close>, of \<^verbatim>\<open>cosmpy.aerial.wallet\<close>) is not in this module; it
  "produces a fresh secret key string for a blockchain-style wallet". Each call draws the
  next output of the environment's generator.
\<close>

definition PrivateKey :: "world \<Rightarrow> string \<times> world" where
  "PrivateKey w =
     (wallet_src w (wallet_calls w), w\<lparr>wallet_calls := Suc (wallet_calls w)\<rparr>)"

section \<open>KeyValueStore\<close>

record KeyValueStore =
  store_data :: json
  store_name :: string
  store_path :: string

definition KeyValueStore_load :: "KeyValueStore \<Rightarrow> world \<Rightarrow> error + KeyValueStore" where
  "KeyValueStore_load s w =
     (case json_load (store_path s) w of
        Inl e \<Rightarrow> Inl e
      | Inr v \<Rightarrow> Inr (s\<lparr>store_data := v\<rparr>))"

definition KeyValueStore_save :: "KeyValueStore \<Rightarrow> world \<Rightarrow> (error + unit) \<times> world" where
  "KeyValueStore_save s w = json_dump (store_data s) (store_path s) w"

text \<open>
  \<^verbatim>\<open>__init__(name, cwd=None)\<close> computes the path from \<^verbatim>\<open>name or "my"\<close> and
  \<^verbatim>\<open>cwd or os.getcwd()\<close>, and loads when a regular file stands there. An exception of the
  load leaves no instance.
\<close>

definition KeyValueStore_path :: "string \<Rightarrow> string option \<Rightarrow> world \<Rightarrow> string" where
  "KeyValueStore_path name cwd w =
     os_path_join
       (case cwd of None \<Rightarrow> getcwd w | Some d \<Rightarrow> if d = [] then getcwd w else d)
       ((if name = [] then ''my'' else name) @ ''_data.json'')"

definition KeyValueStore_init :: "string \<Rightarrow> string option \<Rightarrow> world \<Rightarrow> error + KeyValueStore" where
  "KeyValueStore_init name cwd w =
     (let s = \<lparr>store_data = JObj [],
                store_name = (if name = [] then ''my'' else name),
                store_path = KeyValueStore_path name cwd w\<rparr>
      in if os_path_isfile (store_path s) w then KeyValueStore_load s w else Inr s)"

definition KeyValueStore_get :: "KeyValueStore \<Rightarrow> string \<Rightarrow> error + json" where
  "KeyValueStore_get s key = py_get (store_data s) key"

definition KeyValueStore_has :: "KeyValueStore \<Rightarrow> string \<Rightarrow> error + bool" where
  "KeyValueStore_has s key = py_contains key (store_data s)"

text \<open>
  The mutating methods return the outcome, the instance and the environment after the call.
  \<^verbatim>\<open>set\<close> assigns before it saves, so a failed save leaves the new entry in memory.
\<close>

definition KeyValueStore_set ::
  "KeyValueStore \<Rightarrow> string \<Rightarrow> json \<Rightarrow> world \<Rightarrow> (error + unit) \<times> KeyValueStore \<times> world" where
  "KeyValueStore_set s key v w =
     (case py_setitem (store_data s) key v of
        Inl e \<Rightarrow> (Inl e, s, w)
      | Inr d \<Rightarrow>
          (let s' = s\<lparr>store_data := d\<rparr>; (r, w') = KeyValueStore_save s' w
           in (r, s', w')))"

definition KeyValueStore_remove ::
  "KeyValueStore \<Rightarrow> string \<Rightarrow> world \<Rightarrow> (error + unit) \<times> KeyValueStore \<times> world" where
  "KeyValueStore_remove s key w =
     (case py_contains key (store_data s) of
        Inl e \<Rightarrow> (Inl e, s, w)
      | Inr present \<Rightarrow>
          if present then
            (case py_delitem (store_data s) key of
               Inl e \<Rightarrow> (Inl e, s, w)
             | Inr d \<Rightarrow>
                 (let s' = s\<lparr>store_data := d\<rparr>; (r, w') = KeyValueStore_save s' w
                  in (r, s', w')))
          else (Inr (), s, w))"

definition KeyValueStore_clear ::
  "KeyValueStore \<Rightarrow> world \<Rightarrow> (error + unit) \<times> KeyValueStore \<times> world" where
  "KeyValueStore_clear s w =
     (case py_clear (store_data s) of
        Inl e \<Rightarrow> (Inl e, s, w)
      | Inr d \<Rightarrow>
          (let s' = s\<lparr>store_data := d\<rparr>; (r, w') = KeyValueStore_save s' w
           in (r, s', w')))"

section \<open>Private keys\<close>

definition private_keys_path :: "world \<Rightarrow> string" where
  "private_keys_path w = os_path_join (getcwd w) ''private_keys.json''"

definition load_all_keys :: "world \<Rightarrow> error + json" where
  "load_all_keys w =
     (if os_path_exists (private_keys_path w) w then json_load (private_keys_path w) w
      else Inr (JObj []))"

definition save_private_keys ::
  "string \<Rightarrow> string \<Rightarrow> string \<Rightarrow> world \<Rightarrow> (error + unit) \<times> world" where
  "save_private_keys name identity_key wallet_key w =
     (case load_all_keys w of
        Inl e \<Rightarrow> (Inl e, w)
      | Inr private_keys \<Rightarrow>
          (case py_setitem private_keys name
                  (JObj [(''identity_key'', JStr identity_key), (''wallet_key'', JStr wallet_key)]) of
             Inl e \<Rightarrow> (Inl e, w)
           | Inr private_keys' \<Rightarrow> json_dump private_keys' (private_keys_path w) w))"

text \<open>
  The last four statements of \<^verbatim>\<open>get_or_create_private_keys\<close>: one identity key and one
  wallet key are drawn for the result, and a further wallet key is drawn in the argument
  list of \<^verbatim>\<open>save_private_keys\<close>.
\<close>

definition create_private_keys :: "string \<Rightarrow> world \<Rightarrow> (error + json \<times> json) \<times> world" where
  "create_private_keys name w =
     (let (identity_key, w1) = Identity_generate w;
          (wallet_key, w2) = PrivateKey w1;
          (saved_wallet_key, w3) = PrivateKey w2;
          (r, w4) = save_private_keys name identity_key saved_wallet_key w3
      in case r of
           Inl e \<Rightarrow> (Inl e, w4)
         | Inr u \<Rightarrow> (Inr (JStr identity_key, JStr wallet_key), w4))"

definition get_or_create_private_keys :: "string \<Rightarrow> world \<Rightarrow> (error + json \<times> json) \<times> world" where
  "get_or_create_private_keys name w =
     (case load_all_keys w of
        Inl e \<Rightarrow> (Inl e, w)
      | Inr keys \<Rightarrow>
          (case py_contains name keys of
             Inl e \<Rightarrow> (Inl e, w)
           | Inr present \<Rightarrow>
               if present then
                 (case py_get keys name of
                    Inl e \<Rightarrow> (Inl e, w)
                  | Inr private_keys \<Rightarrow>
                      if py_bool private_keys then
                        (case py_getitem private_keys ''identity_key'' of
                           Inl e \<Rightarrow> (Inl e, w)
                         | Inr ik \<Rightarrow>
                             (case py_getitem private_keys ''wallet_key'' of
                                Inl e \<Rightarrow> (Inl e, w)
                              | Inr wk \<Rightarrow> (Inr (ik, wk), w)))
                      else create_private_keys name w)
               else create_private_keys name w))"

text \<open>
  What a reader finds under \<^verbatim>\<open>name\<close> in the private keys file:
  \<^verbatim>\<open>load_all_keys()[name]["identity_key"]\<close> and \<^verbatim>\<open>load_all_keys()[name]["wallet_key"]\<close>.
  The module has no such function; the theorems use it to say what was persisted.
\<close>

definition saved_keys :: "string \<Rightarrow> world \<Rightarrow> error + json \<times> json" where
  "saved_keys name w =
     (case load_all_keys w of
        Inl e \<Rightarrow> Inl e
      | Inr keys \<Rightarrow>
          (case py_getitem keys name of
             Inl e \<Rightarrow> Inl e
           | Inr private_keys \<Rightarrow>
               (case py_getitem private_keys ''identity_key'' of
                  Inl e \<Rightarrow> Inl e
                | Inr ik \<Rightarrow>
                    (case py_getitem private_keys ''wallet_key'' of
                       Inl e \<Rightarrow> Inl e
                     | Inr wk \<Rightarrow> Inr (ik, wk)))))"

section \<open>Concrete environments\<close>

text \<open>
  An environment with no file in the working directory \<^verbatim>\<open>/home/agent\<close>, whose generators
  produce \<^verbatim>\<open>i\<close>, \<^verbatim>\<open>ii\<close>, ... and \<^verbatim>\<open>w\<close>, \<^verbatim>\<open>ww\<close>, ...; the same environment with a
  given \<^verbatim>\<open>private_keys.json\<close> or a given \<^verbatim>\<open>my_data.json\<close>; and the instance named
  \<^verbatim>\<open>my\<close> of that directory, holding given data.
\<close>

definition fresh_world :: world where
  "fresh_world =
     \<lparr>files = Map.empty, getcwd = ''/home/agent'', written = [],
      identity_src = (\<lambda>n. replicate (Suc n) CHR ''i''), identity_calls = 0,
      wallet_src = (\<lambda>n. replicate (Suc n) CHR ''w''), wallet_calls = 0\<rparr>"

definition keys_world :: "contents \<Rightarrow> world" where
  "keys_world c = fresh_world\<lparr>files := [''/home/agent/private_keys.json'' \<mapsto> File c]\<rparr>"

definition data_world :: "contents \<Rightarrow> world" where
  "data_world c = fresh_world\<lparr>files := [''/home/agent/my_data.json'' \<mapsto> File c]\<rparr>"

definition my_store :: "json \<Rightarrow> KeyValueStore" where
  "my_store d =
     \<lparr>store_data = d, store_name = ''my'', store_path = ''/home/agent/my_data.json''\<rparr>"

section \<open>Reading and writing files\<close>

lemma json_dump_ok:
  "files w p \<noteq> Some Dir \<Longrightarrow>
     json_dump v p w =
       (Inr (), w\<lparr>files := (files w)(p \<mapsto> File (Parses v)), written := p # written w\<rparr>)"
  by (auto simp: json_dump_def split: option.splits node.splits)

lemma json_dump_succeeds:
  "json_dump v p w = (Inr (), w') \<Longrightarrow>
     w' = w\<lparr>files := (files w)(p \<mapsto> File (Parses v)), written := p # written w\<rparr>"
  by (auto simp: json_dump_def split: option.splits node.splits)

lemma KeyValueStore_path_written [simp]:
  "KeyValueStore_path name cwd (w\<lparr>files := f, written := l\<rparr>) = KeyValueStore_path name cwd w"
  by (simp add: KeyValueStore_path_def split: option.split)

lemma load_all_keys_not_dir:
  "load_all_keys w = Inr v \<Longrightarrow> files w (private_keys_path w) \<noteq> Some Dir"
  by (auto simp: load_all_keys_def os_path_exists_def json_load_def split: if_splits)

lemma load_all_keys_draws [simp]:
  "load_all_keys (w\<lparr>identity_calls := a\<rparr>) = load_all_keys w"
  "load_all_keys (w\<lparr>wallet_calls := b\<rparr>) = load_all_keys w"
  by (simp_all add: load_all_keys_def os_path_exists_def json_load_def private_keys_path_def)

lemma private_keys_path_draws [simp]:
  "private_keys_path (w\<lparr>identity_calls := a\<rparr>) = private_keys_path w"
  "private_keys_path (w\<lparr>wallet_calls := b\<rparr>) = private_keys_path w"
  by (simp_all add: private_keys_path_def)

lemma load_all_keys_written:
  "load_all_keys (w\<lparr>files := (files w)(private_keys_path w \<mapsto> File (Parses v)),
      written := l\<rparr>) = Inr v"
  by (simp add: load_all_keys_def os_path_exists_def json_load_def private_keys_path_def)

lemma load_all_keys_after_create:
  "load_all_keys (w\<lparr>identity_calls := a, wallet_calls := b,
      files := (files w)(private_keys_path w \<mapsto> File (Parses v)), written := l\<rparr>) = Inr v"
  by (simp add: load_all_keys_def os_path_exists_def json_load_def private_keys_path_def)

lemma keys_world_load:
  "load_all_keys (keys_world c) =
     (case c of Parses v \<Rightarrow> Inr v | Malformed \<Rightarrow> Inl JSONDecodeError)"
  by (simp add: load_all_keys_def keys_world_def fresh_world_def private_keys_path_def
      os_path_join_def os_path_exists_def json_load_def split: contents.split)

lemma fresh_world_load: "load_all_keys fresh_world = Inr (JObj [])"
  by (simp add: load_all_keys_def fresh_world_def os_path_exists_def)

section \<open>The instance keeps its name and path\<close>

lemma KeyValueStore_init_fields:
  assumes "KeyValueStore_init name cwd w = Inr s"
  shows "store_name s = (if name = [] then ''my'' else name)
         \<and> store_path s = KeyValueStore_path name cwd w"
  using assms
  by (auto simp: KeyValueStore_init_def KeyValueStore_load_def Let_def split: if_splits sum.splits)

lemma KeyValueStore_set_fields:
  assumes "KeyValueStore_set s key v w = (r, s', w')"
  shows "store_name s' = store_name s \<and> store_path s' = store_path s"
  using assms
  by (auto simp: KeyValueStore_set_def Let_def split: sum.splits prod.splits)

lemma KeyValueStore_remove_fields:
  assumes "KeyValueStore_remove s key w = (r, s', w')"
  shows "store_name s' = store_name s \<and> store_path s' = store_path s"
  using assms
  by (auto simp: KeyValueStore_remove_def Let_def split: sum.splits prod.splits if_splits)

lemma KeyValueStore_clear_fields:
  assumes "KeyValueStore_clear s w = (r, s', w')"
  shows "store_name s' = store_name s \<and> store_path s' = store_path s"
  using assms
  by (auto simp: KeyValueStore_clear_def Let_def split: sum.splits prod.splits)

section \<open>Saving and creating private keys\<close>

lemma save_private_keys_mapping:
  assumes "load_all_keys w = Inr (JObj m)"
  shows "save_private_keys name ik wk w =
     (Inr (), w\<lparr>files := (files w)(private_keys_path w \<mapsto>
                   File (Parses (JObj (AList.update name
                     (JObj [(''identity_key'', JStr ik), (''wallet_key'', JStr wk)]) m)))),
               written := private_keys_path w # written w\<rparr>)"
  using assms load_all_keys_not_dir[OF assms]
  by (simp add: save_private_keys_def json_dump_ok)

lemma create_private_keys_mapping:
  assumes "load_all_keys w = Inr (JObj m)"
  shows "create_private_keys name w =
     (Inr (JStr (identity_src w (identity_calls w)), JStr (wallet_src w (wallet_calls w))),
      w\<lparr>identity_calls := Suc (identity_calls w),
        wallet_calls := Suc (Suc (wallet_calls w)),
        files := (files w)(private_keys_path w \<mapsto>
                   File (Parses (JObj (AList.update name
                     (JObj [(''identity_key'', JStr (identity_src w (identity_calls w))),
                            (''wallet_key'', JStr (wallet_src w (Suc (wallet_calls w))))]) m)))),
        written := private_keys_path w # written w\<rparr>)"
proof -
  let ?w3 = "w\<lparr>identity_calls := Suc (identity_calls w),
               wallet_calls := Suc (Suc (wallet_calls w))\<rparr>"
  have "load_all_keys ?w3 = Inr (JObj m)"
    using assms by simp
  from save_private_keys_mapping[OF this]
  show ?thesis
    by (simp add: create_private_keys_def Identity_generate_def PrivateKey_def)
qed

lemma get_or_create_absent_or_empty:
  assumes "load_all_keys w = Inr (JObj m)"
      and "case map_of m name of None \<Rightarrow> True | Some r \<Rightarrow> \<not> py_bool r"
  shows "get_or_create_private_keys name w = create_private_keys name w"
  using assms by (auto simp: get_or_create_private_keys_def split: option.splits)

text \<open>
  After a creation, a further call finds the record that was saved and returns it without
  drawing a key or writing: the wallet key it returns is the one drawn second.
\<close>

lemma get_or_create_again:
  assumes "load_all_keys w = Inr (JObj m)"
      and "case map_of m name of None \<Rightarrow> True | Some r \<Rightarrow> \<not> py_bool r"
  shows "get_or_create_private_keys name (snd (get_or_create_private_keys name w)) =
     (Inr (JStr (identity_src w (identity_calls w)), JStr (wallet_src w (Suc (wallet_calls w)))),
      snd (get_or_create_private_keys name w))"
  unfolding get_or_create_absent_or_empty[OF assms] create_private_keys_mapping[OF assms(1)]
  by (simp add: get_or_create_private_keys_def load_all_keys_after_create update_conv')

section \<open>Claims\<close>

text \<open>
  Claim C1: calling \<^verbatim>\<open>get_or_create_private_keys(name)\<close> twice in sequence returns the same
  pair both times. The code does not do this when the first call creates the record: with
  no private keys file and a wallet-key generator whose first two outputs are \<^verbatim>\<open>w\<close> and
  \<^verbatim>\<open>ww\<close>, the first call returns the wallet key \<^verbatim>\<open>w\<close> and saves \<^verbatim>\<open>ww\<close>, and the second call
  (which draws no key and writes nothing) returns \<^verbatim>\<open>ww\<close>.
\<close>

theorem second_call_returns_other_wallet_key:
  "fst (get_or_create_private_keys ''alice'' fresh_world) = Inr (JStr ''i'', JStr ''w'')
   \<and> get_or_create_private_keys ''alice''
        (snd (get_or_create_private_keys ''alice'' fresh_world)) =
       (Inr (JStr ''i'', JStr ''ww''), snd (get_or_create_private_keys ''alice'' fresh_world))"
proof -
  have absent: "case map_of [] ''alice'' of None \<Rightarrow> True | Some r \<Rightarrow> \<not> py_bool r"
    by simp
  have first: "fst (get_or_create_private_keys ''alice'' fresh_world) =
      Inr (JStr ''i'', JStr ''w'')"
    by (simp add: get_or_create_absent_or_empty[OF fresh_world_load absent]
        create_private_keys_mapping[OF fresh_world_load])
      (simp add: fresh_world_def)
  have second: "get_or_create_private_keys ''alice''
        (snd (get_or_create_private_keys ''alice'' fresh_world)) =
       (Inr (JStr ''i'', JStr ''ww''), snd (get_or_create_private_keys ''alice'' fresh_world))"
    unfolding get_or_create_again[OF fresh_world_load absent]
    by (simp add: fresh_world_def)
  from first second show ?thesis by simp
qed

text \<open>
  Claim C2: after a successful \<^verbatim>\<open>set(key, value)\<close>, \<^verbatim>\<open>get(key)\<close> returns \<^verbatim>\<open>value\<close> and
  \<^verbatim>\<open>has(key)\<close> is true, for every key and every value.
\<close>

theorem set_then_get_has:
  assumes "KeyValueStore_set s key v w = (Inr (), s', w')"
  shows "KeyValueStore_get s' key = Inr v \<and> KeyValueStore_has s' key = Inr True"
proof (cases "store_data s")
  case (JObj m)
  with assms have "store_data s' = JObj (AList.update key v m)"
    by (auto simp: KeyValueStore_set_def Let_def split: prod.splits)
  then show ?thesis
    by (simp add: KeyValueStore_get_def KeyValueStore_has_def update_conv')
qed (use assms in \<open>simp_all add: KeyValueStore_set_def\<close>)

theorem set_then_get_has_witness:
  "KeyValueStore_set (my_store (JObj [])) ''x'' (JInt 1) fresh_world =
     (Inr (), my_store (JObj [(''x'', JInt 1)]), data_world (Parses (JObj [(''x'', JInt 1)]))
        \<lparr>written := [''/home/agent/my_data.json'']\<rparr>)
   \<and> KeyValueStore_get (my_store (JObj [(''x'', JInt 1)])) ''x'' = Inr (JInt 1)
   \<and> KeyValueStore_has (my_store (JObj [(''x'', JInt 1)])) ''x'' = Inr True"
proof -
  have run: "KeyValueStore_set (my_store (JObj [])) ''x'' (JInt 1) fresh_world =
     (Inr (), my_store (JObj [(''x'', JInt 1)]), data_world (Parses (JObj [(''x'', JInt 1)]))
        \<lparr>written := [''/home/agent/my_data.json'']\<rparr>)"
    by (simp add: KeyValueStore_set_def KeyValueStore_save_def json_dump_def my_store_def
        fresh_world_def data_world_def)
  from set_then_get_has[OF run] run show ?thesis by blast
qed

text \<open>
  Claim C3: a new instance constructed with the same name and working directory, after an
  instance of that name and directory saved its data, holds the data that was saved (and
  is the same instance, field by field).
\<close>

theorem save_then_init_roundtrip:
  assumes "store_name s = (if name = [] then ''my'' else name)"
      and "store_path s = KeyValueStore_path name cwd w"
      and "KeyValueStore_save s w = (Inr (), w')"
  shows "KeyValueStore_init name cwd w' = Inr s"
proof -
  from assms(3)
  have w': "w' = w\<lparr>files := (files w)(store_path s \<mapsto> File (Parses (store_data s))),
                   written := store_path s # written w\<rparr>"
    unfolding KeyValueStore_save_def by (rule json_dump_succeeds)
  show ?thesis
    unfolding w' using assms(1,2)
    by (simp add: KeyValueStore_init_def os_path_isfile_def KeyValueStore_load_def json_load_def)
qed

theorem save_then_init_roundtrip_witness:
  "store_name (my_store (JObj [(''x'', JInt 1)])) = (if [] = [] then ''my'' else [])
   \<and> store_path (my_store (JObj [(''x'', JInt 1)])) = KeyValueStore_path [] None fresh_world
   \<and> KeyValueStore_save (my_store (JObj [(''x'', JInt 1)])) fresh_world =
       (Inr (), data_world (Parses (JObj [(''x'', JInt 1)]))
          \<lparr>written := [''/home/agent/my_data.json'']\<rparr>)
   \<and> KeyValueStore_init [] None
        (data_world (Parses (JObj [(''x'', JInt 1)]))
           \<lparr>written := [''/home/agent/my_data.json'']\<rparr>) =
       Inr (my_store (JObj [(''x'', JInt 1)]))"
proof -
  have n: "store_name (my_store (JObj [(''x'', JInt 1)])) = (if [] = [] then ''my'' else [])"
    by (simp add: my_store_def)
  have p: "store_path (my_store (JObj [(''x'', JInt 1)])) =
      KeyValueStore_path [] None fresh_world"
    by (simp add: my_store_def KeyValueStore_path_def os_path_join_def fresh_world_def)
  have sv: "KeyValueStore_save (my_store (JObj [(''x'', JInt 1)])) fresh_world =
       (Inr (), data_world (Parses (JObj [(''x'', JInt 1)]))
          \<lparr>written := [''/home/agent/my_data.json'']\<rparr>)"
    by (simp add: KeyValueStore_save_def json_dump_def my_store_def fresh_world_def
        data_world_def)
  from save_then_init_roundtrip[OF n p sv] n p sv show ?thesis by blast
qed

text \<open>
  Claim C4: \<^verbatim>\<open>remove(key)\<close> for a key that is not in the store raises nothing and changes
  neither the instance nor the environment: no file is written.
\<close>

theorem remove_absent_noop:
  assumes "KeyValueStore_has s key = Inr False"
  shows "KeyValueStore_remove s key w = (Inr (), s, w)"
  using assms by (simp add: KeyValueStore_has_def KeyValueStore_remove_def)

theorem remove_absent_noop_witness:
  "KeyValueStore_has (my_store (JObj [(''x'', JInt 1)])) ''y'' = Inr False
   \<and> KeyValueStore_remove (my_store (JObj [(''x'', JInt 1)])) ''y'' fresh_world =
       (Inr (), my_store (JObj [(''x'', JInt 1)]), fresh_world)"
proof -
  have absent: "KeyValueStore_has (my_store (JObj [(''x'', JInt 1)])) ''y'' = Inr False"
    by (simp add: KeyValueStore_has_def my_store_def)
  from remove_absent_noop[OF absent] absent show ?thesis by blast
qed

text \<open>
  Claim C5: when the record of \<^verbatim>\<open>name\<close> is present in the private keys file and is not
  empty, \<^verbatim>\<open>get_or_create_private_keys(name)\<close> returns what the file holds under \<^verbatim>\<open>name\<close>,
  its identity key and its wallet key, and leaves the environment as it was: no key is
  drawn and no file is written.
\<close>

theorem stored_keys_returned:
  assumes "load_all_keys w = Inr (JObj m)"
      and "map_of m name = Some r"
      and "py_bool r"
  shows "get_or_create_private_keys name w = (saved_keys name w, w)"
  using assms
  by (simp add: get_or_create_private_keys_def saved_keys_def split: sum.splits)

theorem stored_keys_returned_witness:
  "load_all_keys (keys_world (Parses (JObj [(''alice'',
       JObj [(''identity_key'', JStr ''A''), (''wallet_key'', JStr ''B'')])]))) =
     Inr (JObj [(''alice'', JObj [(''identity_key'', JStr ''A''), (''wallet_key'', JStr ''B'')])])
   \<and> map_of [(''alice'', JObj [(''identity_key'', JStr ''A''), (''wallet_key'', JStr ''B'')])]
        ''alice'' =
       Some (JObj [(''identity_key'', JStr ''A''), (''wallet_key'', JStr ''B'')])
   \<and> py_bool (JObj [(''identity_key'', JStr ''A''), (''wallet_key'', JStr ''B'')])
   \<and> saved_keys ''alice'' (keys_world (Parses (JObj [(''alice'',
        JObj [(''identity_key'', JStr ''A''), (''wallet_key'', JStr ''B'')])]))) =
       Inr (JStr ''A'', JStr ''B'')
   \<and> get_or_create_private_keys ''alice'' (keys_world (Parses (JObj [(''alice'',
        JObj [(''identity_key'', JStr ''A''), (''wallet_key'', JStr ''B'')])]))) =
       (Inr (JStr ''A'', JStr ''B''), keys_world (Parses (JObj [(''alice'',
        JObj [(''identity_key'', JStr ''A''), (''wallet_key'', JStr ''B'')])])))"
proof -
  let ?r = "JObj [(''identity_key'', JStr ''A''), (''wallet_key'', JStr ''B'')]"
  let ?m = "[(''alice'', ?r)]"
  have l: "load_all_keys (keys_world (Parses (JObj ?m))) = Inr (JObj ?m)"
    by (simp add: keys_world_load)
  have p: "map_of ?m ''alice'' = Some ?r" by simp
  have n: "py_bool ?r" by simp
  have k: "saved_keys ''alice'' (keys_world (Parses (JObj ?m))) = Inr (JStr ''A'', JStr ''B'')"
    by (simp add: saved_keys_def keys_world_load)
  from stored_keys_returned[OF l p n] l p n k show ?thesis by simp
qed

text \<open>
  Claim C6: when a regular file stands at the path of the store and its content is not
  valid JSON, the construction raises \<^verbatim>\<open>JSONDecodeError\<close>: no instance is returned, so none
  with an empty mapping.
\<close>

theorem init_malformed_raises:
  assumes "files w (KeyValueStore_path name cwd w) = Some (File Malformed)"
  shows "KeyValueStore_init name cwd w = Inl JSONDecodeError"
  using assms
  by (simp add: KeyValueStore_init_def os_path_isfile_def KeyValueStore_load_def json_load_def)

theorem init_malformed_raises_witness:
  "files (data_world Malformed) (KeyValueStore_path ''my'' None (data_world Malformed)) =
     Some (File Malformed)
   \<and> KeyValueStore_init ''my'' None (data_world Malformed) = Inl JSONDecodeError"
proof -
  have bad: "files (data_world Malformed)
      (KeyValueStore_path ''my'' None (data_world Malformed)) = Some (File Malformed)"
    by (simp add: data_world_def fresh_world_def KeyValueStore_path_def os_path_join_def)
  from init_malformed_raises[OF bad] bad show ?thesis by blast
qed

text \<open>
  Claim C7: \<^verbatim>\<open>save_private_keys(name, identity_key, wallet_key)\<close> on a private keys file that
  holds a mapping (or on no file, the empty mapping) succeeds and leaves a file whose
  mapping is the prior one with the entry of \<^verbatim>\<open>name\<close> inserted or overwritten: \<^verbatim>\<open>name\<close>
  maps to the new record, and every other name maps to what it did.
\<close>

theorem save_private_keys_updates:
  assumes "load_all_keys w = Inr (JObj m)"
  shows "fst (save_private_keys name ik wk w) = Inr ()
     \<and> load_all_keys (snd (save_private_keys name ik wk w)) =
         Inr (JObj (AList.update name
           (JObj [(''identity_key'', JStr ik), (''wallet_key'', JStr wk)]) m))
     \<and> map_of (AList.update name
           (JObj [(''identity_key'', JStr ik), (''wallet_key'', JStr wk)]) m) name =
         Some (JObj [(''identity_key'', JStr ik), (''wallet_key'', JStr wk)])
     \<and> (\<forall>other. other \<noteq> name \<longrightarrow>
           map_of (AList.update name
             (JObj [(''identity_key'', JStr ik), (''wallet_key'', JStr wk)]) m) other =
           map_of m other)"
  by (simp add: save_private_keys_mapping[OF assms] load_all_keys_written update_conv')

theorem save_private_keys_updates_witness:
  "load_all_keys (keys_world (Parses (JObj [(''alice'',
       JObj [(''identity_key'', JStr ''A''), (''wallet_key'', JStr ''B'')])]))) =
     Inr (JObj [(''alice'', JObj [(''identity_key'', JStr ''A''), (''wallet_key'', JStr ''B'')])])
   \<and> ''alice'' \<noteq> ''bob''
   \<and> fst (save_private_keys ''bob'' ''C'' ''D'' (keys_world (Parses (JObj [(''alice'',
       JObj [(''identity_key'', JStr ''A''), (''wallet_key'', JStr ''B'')])])))) = Inr ()
   \<and> load_all_keys (snd (save_private_keys ''bob'' ''C'' ''D'' (keys_world (Parses (JObj
       [(''alice'', JObj [(''identity_key'', JStr ''A''), (''wallet_key'', JStr ''B'')])]))))) =
       Inr (JObj [(''alice'', JObj [(''identity_key'', JStr ''A''), (''wallet_key'', JStr ''B'')]),
                  (''bob'', JObj [(''identity_key'', JStr ''C''), (''wallet_key'', JStr ''D'')])])"
proof -
  let ?m = "[(''alice'', JObj [(''identity_key'', JStr ''A''), (''wallet_key'', JStr ''B'')])]"
  have l: "load_all_keys (keys_world (Parses (JObj ?m))) = Inr (JObj ?m)"
    by (simp add: keys_world_load)
  from save_private_keys_updates[OF l, of "''bob''" "''C''" "''D''"] l show ?thesis by simp
qed

text \<open>
  Claim C8, as the code has it: for a name whose record is present, the keys are generated
  and persisted when the record as a whole is falsy (an empty object, \<^verbatim>\<open>null\<close>, \<^verbatim>\<open>false\<close>,
  \<^verbatim>\<open>0\<close>, an empty string or list), and only then: for a record that is not, nothing is drawn
  and nothing is written, whatever its key fields hold.
\<close>

theorem regenerated_iff_record_falsy:
  assumes "load_all_keys w = Inr (JObj m)"
      and "map_of m name = Some r"
  shows "(\<not> py_bool r \<longrightarrow>
            fst (get_or_create_private_keys name w) =
              Inr (JStr (identity_src w (identity_calls w)), JStr (wallet_src w (wallet_calls w)))
          \<and> identity_calls (snd (get_or_create_private_keys name w)) = Suc (identity_calls w)
          \<and> wallet_calls (snd (get_or_create_private_keys name w)) = Suc (Suc (wallet_calls w))
          \<and> written (snd (get_or_create_private_keys name w)) = private_keys_path w # written w
          \<and> saved_keys name (snd (get_or_create_private_keys name w)) =
              Inr (JStr (identity_src w (identity_calls w)),
                   JStr (wallet_src w (Suc (wallet_calls w)))))
       \<and> (py_bool r \<longrightarrow> snd (get_or_create_private_keys name w) = w)"
proof (cases "py_bool r")
  case True
  with assms show ?thesis
    by (simp add: get_or_create_private_keys_def split: sum.splits)
next
  case False
  with assms(2) have "case map_of m name of None \<Rightarrow> True | Some r \<Rightarrow> \<not> py_bool r"
    by simp
  from get_or_create_absent_or_empty[OF assms(1) this] False show ?thesis
    by (simp add: create_private_keys_mapping[OF assms(1)]
        saved_keys_def load_all_keys_after_create update_conv')
qed

theorem regenerated_iff_record_falsy_witness:
  "load_all_keys (keys_world (Parses (JObj [(''alice'', JObj [])]))) =
     Inr (JObj [(''alice'', JObj [])])
   \<and> map_of [(''alice'', JObj [])] ''alice'' = Some (JObj [])
   \<and> \<not> py_bool (JObj [])
   \<and> fst (get_or_create_private_keys ''alice'' (keys_world (Parses (JObj [(''alice'', JObj [])])))) =
       Inr (JStr ''i'', JStr ''w'')
   \<and> identity_calls (snd (get_or_create_private_keys ''alice''
        (keys_world (Parses (JObj [(''alice'', JObj [])]))))) = 1
   \<and> wallet_calls (snd (get_or_create_private_keys ''alice''
        (keys_world (Parses (JObj [(''alice'', JObj [])]))))) = 2
   \<and> saved_keys ''alice'' (snd (get_or_create_private_keys ''alice''
        (keys_world (Parses (JObj [(''alice'', JObj [])]))))) = Inr (JStr ''i'', JStr ''ww'')
   \<and> load_all_keys (keys_world (Parses (JObj [(''alice'', JObj [(''identity_key'', JStr [])])]))) =
       Inr (JObj [(''alice'', JObj [(''identity_key'', JStr [])])])
   \<and> map_of [(''alice'', JObj [(''identity_key'', JStr [])])] ''alice'' =
       Some (JObj [(''identity_key'', JStr [])])
   \<and> py_bool (JObj [(''identity_key'', JStr [])])
   \<and> snd (get_or_create_private_keys ''alice''
        (keys_world (Parses (JObj [(''alice'', JObj [(''identity_key'', JStr [])])])))) =
       keys_world (Parses (JObj [(''alice'', JObj [(''identity_key'', JStr [])])]))"
proof -
  let ?e = "[(''alice'', JObj [])]"
  let ?b = "[(''alice'', JObj [(''identity_key'', JStr [])])]"
  have le: "load_all_keys (keys_world (Parses (JObj ?e))) = Inr (JObj ?e)"
    by (simp add: keys_world_load)
  have pe: "map_of ?e ''alice'' = Some (JObj [])" by simp
  have lb: "load_all_keys (keys_world (Parses (JObj ?b))) = Inr (JObj ?b)"
    by (simp add: keys_world_load)
  have pb: "map_of ?b ''alice'' = Some (JObj [(''identity_key'', JStr [])])" by simp
  from regenerated_iff_record_falsy[OF le pe] regenerated_iff_record_falsy[OF lb pb] le pe lb pb
  show ?thesis by (simp add: keys_world_def fresh_world_def)
qed

text \<open>
  Claim C8, as stated, fails: the record of \<^verbatim>\<open>alice\<close> below is present and both of its key
  fields are empty strings, and the call returns the two empty strings from the record,
  drawing no key and writing nothing.
\<close>

theorem blank_fields_not_regenerated:
  "get_or_create_private_keys ''alice'' (keys_world (Parses (JObj [(''alice'',
        JObj [(''identity_key'', JStr []), (''wallet_key'', JStr [])])]))) =
     (Inr (JStr [], JStr []), keys_world (Parses (JObj [(''alice'',
        JObj [(''identity_key'', JStr []), (''wallet_key'', JStr [])])])))"
  by (simp add: get_or_create_private_keys_def keys_world_load)

text \<open>
  Claim C9: when \<^verbatim>\<open>name\<close> is absent from the private keys file or its record is empty,
  \<^verbatim>\<open>get_or_create_private_keys(name)\<close> draws two wallet keys; it returns the first and
  saves the second, so what it returns is not what the file holds whenever the two differ.
\<close>

theorem created_wallet_key_drawn_twice:
  assumes "load_all_keys w = Inr (JObj m)"
      and "case map_of m name of None \<Rightarrow> True | Some r \<Rightarrow> \<not> py_bool r"
  shows "fst (get_or_create_private_keys name w) =
           Inr (JStr (identity_src w (identity_calls w)), JStr (wallet_src w (wallet_calls w)))
     \<and> saved_keys name (snd (get_or_create_private_keys name w)) =
           Inr (JStr (identity_src w (identity_calls w)), JStr (wallet_src w (Suc (wallet_calls w))))
     \<and> wallet_calls (snd (get_or_create_private_keys name w)) = wallet_calls w + 2
     \<and> (wallet_src w (wallet_calls w) \<noteq> wallet_src w (Suc (wallet_calls w)) \<longrightarrow>
          saved_keys name (snd (get_or_create_private_keys name w)) \<noteq>
          fst (get_or_create_private_keys name w))"
  by (simp add: get_or_create_absent_or_empty[OF assms] create_private_keys_mapping[OF assms(1)]
      saved_keys_def load_all_keys_after_create update_conv')

theorem created_wallet_key_drawn_twice_witness:
  "load_all_keys fresh_world = Inr (JObj [])
   \<and> (case map_of [] ''alice'' of None \<Rightarrow> True | Some r \<Rightarrow> \<not> py_bool r)
   \<and> wallet_src fresh_world (wallet_calls fresh_world) \<noteq>
       wallet_src fresh_world (Suc (wallet_calls fresh_world))
   \<and> fst (get_or_create_private_keys ''alice'' fresh_world) = Inr (JStr ''i'', JStr ''w'')
   \<and> saved_keys ''alice'' (snd (get_or_create_private_keys ''alice'' fresh_world)) =
       Inr (JStr ''i'', JStr ''ww'')
   \<and> wallet_calls (snd (get_or_create_private_keys ''alice'' fresh_world)) = 2
   \<and> saved_keys ''alice'' (snd (get_or_create_private_keys ''alice'' fresh_world)) \<noteq>
       fst (get_or_create_private_keys ''alice'' fresh_world)"
proof -
  have a: "case map_of [] ''alice'' of None \<Rightarrow> True | Some r \<Rightarrow> \<not> py_bool r" by simp
  have d: "wallet_src fresh_world (wallet_calls fresh_world) \<noteq>
       wallet_src fresh_world (Suc (wallet_calls fresh_world))"
    by (simp add: fresh_world_def)
  from created_wallet_key_drawn_twice[OF fresh_world_load a] fresh_world_load a d
  show ?thesis by (simp add: fresh_world_def)
qed

text \<open>
  Claim C10: after a successful \<^verbatim>\<open>set(key, None)\<close>, \<^verbatim>\<open>has(key)\<close> is true and \<^verbatim>\<open>get(key)\<close>
  returns \<^verbatim>\<open>None\<close>, which is also what \<^verbatim>\<open>get\<close> returns for every key the store does not
  have.
\<close>

theorem set_null_looks_absent:
  assumes "KeyValueStore_set s key JNull w = (Inr (), s', w')"
  shows "KeyValueStore_has s' key = Inr True \<and> KeyValueStore_get s' key = Inr JNull
         \<and> (\<forall>k. KeyValueStore_has s' k = Inr False \<longrightarrow>
                 KeyValueStore_get s' k = KeyValueStore_get s' key)"
proof (cases "store_data s")
  case (JObj m)
  with assms have "store_data s' = JObj (AList.update key JNull m)"
    by (auto simp: KeyValueStore_set_def Let_def split: prod.splits)
  then show ?thesis
    by (simp add: KeyValueStore_get_def KeyValueStore_has_def update_conv')
qed (use assms in \<open>simp_all add: KeyValueStore_set_def\<close>)

theorem set_null_looks_absent_witness:
  "KeyValueStore_set (my_store (JObj [])) ''x'' JNull fresh_world =
     (Inr (), my_store (JObj [(''x'', JNull)]), data_world (Parses (JObj [(''x'', JNull)]))
        \<lparr>written := [''/home/agent/my_data.json'']\<rparr>)
   \<and> KeyValueStore_has (my_store (JObj [(''x'', JNull)])) ''x'' = Inr True
   \<and> KeyValueStore_has (my_store (JObj [(''x'', JNull)])) ''y'' = Inr False
   \<and> KeyValueStore_get (my_store (JObj [(''x'', JNull)])) ''x'' = Inr JNull
   \<and> KeyValueStore_get (my_store (JObj [(''x'', JNull)])) ''y'' = Inr JNull"
proof -
  have run: "KeyValueStore_set (my_store (JObj [])) ''x'' JNull fresh_world =
     (Inr (), my_store (JObj [(''x'', JNull)]), data_world (Parses (JObj [(''x'', JNull)]))
        \<lparr>written := [''/home/agent/my_data.json'']\<rparr>)"
    by (simp add: KeyValueStore_set_def KeyValueStore_save_def json_dump_def my_store_def
        fresh_world_def data_world_def)
  have absent: "KeyValueStore_has (my_store (JObj [(''x'', JNull)])) ''y'' = Inr False"
    by (simp add: KeyValueStore_has_def my_store_def)
  from set_null_looks_absent[OF run] absent run show ?thesis by simp
qed

end
